theory Spec2Isabelle
  imports Complex_Main
begin

section \<open>Python values the handlers compute with\<close>

text \<open>
  Strings are lists of 8-bit characters, each read as the code point of that number.
  Python's \<^verbatim>\<open>int(s)\<close> on a string strips surrounding whitespace, takes one optional
  sign, and then wants decimal digits, where single underscores may sit between two digits.
  Anything else raises \<^verbatim>\<open>ValueError\<close>, which is the result \<open>None\<close> here.
  The whitespace that \<^verbatim>\<open>int\<close> strips is the ASCII whitespace of C (tab, line feed,
  vertical tab, form feed, carriage return, space) and, beyond ASCII, the code points 133
  and 160; the separators 28 to 31 are not stripped. The limit on the number of digits that
  interpreters from version 3.11 on apply is a setting of the interpreter and is not part
  of this model: every string of digits is read.
\<close>

definition is_ascii_space :: "char \<Rightarrow> bool" where
  "is_ascii_space c = ((of_char c :: nat) \<in> set [9, 10, 11, 12, 13, 32])"

definition is_space :: "char \<Rightarrow> bool" where
  "is_space c = (is_ascii_space c \<or> (of_char c :: nat) \<in> set [133, 160])"

definition is_digit :: "char \<Rightarrow> bool" where
  "is_digit c = (48 \<le> (of_char c :: nat) \<and> (of_char c :: nat) \<le> 57)"

definition digit_val :: "char \<Rightarrow> int" where
  "digit_val c = of_char c - 48"

definition strip :: "string \<Rightarrow> string" where
  "strip s = rev (dropWhile is_space (rev (dropWhile is_space s)))"

fun digits_val :: "int \<Rightarrow> string \<Rightarrow> int option" where
  "digits_val acc [] = Some acc"
| "digits_val acc [c] = (if is_digit c then Some (acc * 10 + digit_val c) else None)"
| "digits_val acc (c # d # cs) =
     (if is_digit c then digits_val (acc * 10 + digit_val c) (d # cs)
      else if c = CHR ''_'' \<and> is_digit d then digits_val (acc * 10 + digit_val d) cs
      else None)"

definition parse_unsigned :: "string \<Rightarrow> int option" where
  "parse_unsigned s =
     (case s of [] \<Rightarrow> None
      | c # cs \<Rightarrow> if is_digit c then digits_val (digit_val c) cs else None)"

definition py_int :: "string \<Rightarrow> int option" where
  "py_int s =
     (case strip s of [] \<Rightarrow> None
      | c # cs \<Rightarrow>
          if c = CHR ''-'' then map_option uminus (parse_unsigned cs)
          else if c = CHR ''+'' then parse_unsigned cs
          else parse_unsigned (c # cs))"

text \<open>\<^verbatim>\<open>str(i)\<close> of an integer, used when a value is formatted into a message.\<close>

fun show_nat :: "nat \<Rightarrow> string" where
  "show_nat n =
     (if n < 10 then [''0123456789'' ! n]
      else show_nat (n div 10) @ [''0123456789'' ! (n mod 10)])"

definition show_int :: "int \<Rightarrow> string" where
  "show_int i = (if i < 0 then CHR ''-'' # show_nat (nat (- i)) else show_nat (nat i))"

text \<open>
  A request argument after \<^verbatim>\<open>request.args.get(k) or default\<close>: the string that was sent,
  or the integer default.
\<close>

datatype arg = AStr string | AInt int

fun truthy :: "arg \<Rightarrow> bool" where
  "truthy (AStr s) = (s \<noteq> [])"
| "truthy (AInt i) = (i \<noteq> 0)"

fun int_of_arg :: "arg \<Rightarrow> int option" where
  "int_of_arg (AStr s) = py_int s"
| "int_of_arg (AInt i) = Some i"

fun str_of_arg :: "arg \<Rightarrow> string" where
  "str_of_arg (AStr s) = s"
| "str_of_arg (AInt i) = show_int i"

definition or_default :: "string option \<Rightarrow> int \<Rightarrow> arg" where
  "or_default v d = (case v of None \<Rightarrow> AInt d | Some s \<Rightarrow> if s = [] then AInt d else AStr s)"

text \<open>\<^verbatim>\<open>str(v)\<close> of a form value that may be \<^verbatim>\<open>None\<close>.\<close>

definition str_of_opt :: "string option \<Rightarrow> string" where
  "str_of_opt v = (case v of None \<Rightarrow> ''None'' | Some s \<Rightarrow> s)"

datatype py_exception =
    TypeError
  | KeyError
  | ValueError_invalid_literal
  | ValueError_empty_sequence
  | ZeroDivisionError
  | OverflowError

section \<open>Object identifiers\<close>

text \<open>
  \<^verbatim>\<open>objectid.ObjectId(s)\<close> on a string wants 24 characters and hands them to
  \<^verbatim>\<open>bytes.fromhex\<close>; when the length is another one, or \<^verbatim>\<open>fromhex\<close> raises, it
  raises \<^verbatim>\<open>InvalidId\<close> (\<open>None\<close> here). \<^verbatim>\<open>fromhex\<close> reads pairs of hexadecimal
  digits and skips ASCII whitespace in front of a pair (every ASCII whitespace from
  Python 3.7 on, which is what is modelled). The identifier is then the bytes read, twelve
  of them when all 24 characters are digits and fewer when some are whitespace.
  \<^verbatim>\<open>str\<close> prints an identifier as the lower-case hexadecimal digits of its bytes, and two
  identifiers are equal when their bytes are, so an identifier is kept as that string.
\<close>

definition is_hex :: "char \<Rightarrow> bool" where
  "is_hex c = (let n = (of_char c :: nat) in
     (48 \<le> n \<and> n \<le> 57) \<or> (65 \<le> n \<and> n \<le> 70) \<or> (97 \<le> n \<and> n \<le> 102))"

definition hex_val :: "char \<Rightarrow> nat" where
  "hex_val c = (let n = (of_char c :: nat) in
     if n \<le> 57 then n - 48 else if n \<le> 70 then n - 55 else n - 87)"

fun fromhex :: "string \<Rightarrow> nat list option" where
  "fromhex [] = Some []"
| "fromhex [c] = (if is_ascii_space c then Some [] else None)"
| "fromhex (c # d # cs) =
     (if is_ascii_space c then fromhex (d # cs)
      else if is_hex c \<and> is_hex d then
        map_option (\<lambda>bs. (hex_val c * 16 + hex_val d) # bs) (fromhex cs)
      else None)"

definition hexlify :: "nat list \<Rightarrow> string" where
  "hexlify bs =
     concat (map (\<lambda>b. [''0123456789abcdef'' ! (b div 16), ''0123456789abcdef'' ! (b mod 16)]) bs)"

definition ObjectId :: "string \<Rightarrow> string option" where
  "ObjectId s = (if length s = 24 then map_option hexlify (fromhex s) else None)"

section \<open>errors.py\<close>

record ApiError =
  message :: string
  status_code :: nat

definition InvalidArgumentError :: "string \<Rightarrow> string \<Rightarrow> ApiError" where
  \<open>InvalidArgumentError v a =
     \<lparr>message = ''"'' @ v @ ''" is not a valid argument for parameter "'' @ a @ ''"'',
      status_code = 500\<rparr>\<close>

definition MissingRequireArgumentError :: "string \<Rightarrow> string \<Rightarrow> ApiError" where
  \<open>MissingRequireArgumentError a url =
     \<lparr>message = ''argument "'' @ a @ ''" is required for endpoint "'' @ url @ ''"'',
      status_code = 500\<rparr>\<close>

definition ObjectNotFoundError :: "string \<Rightarrow> ApiError" where
  \<open>ObjectNotFoundError i =
     \<lparr>message = ''song_id "'' @ i @ ''" not found'', status_code = 404\<rparr>\<close>

section \<open>The song collection\<close>

text \<open>
  A song document. \<open>oid\<close> is the field \<^verbatim>\<open>_id\<close>. The field \<^verbatim>\<open>rating\<close> may be absent
  (\<open>None\<close>); when present it is a dictionary from rating value to count, kept as an
  association list in the order of the document. \<^verbatim>\<open>difficulty\<close> and the averages are
  rational numbers: the rounding of floating-point division is not part of this model.
\<close>

record song =
  oid :: string
  artist :: string
  title :: string
  level :: int
  difficulty :: rat
  rating :: "(string \<times> int) list option"

text \<open>
  The aggregation pipeline of \<^verbatim>\<open>get_avg_difficulty\<close> always starts with the stage
  \<^verbatim>\<open>{"$group": {"_id": "$level", "averageDifficulty": {"$avg": "$difficulty"}}}\<close>;
  \<open>Match_id\<close> is the stage \<^verbatim>\<open>{"$match": {"_id": level}}\<close> appended after it.
\<close>

datatype stage = Group_level_avg_difficulty | Match_id int

datatype store_call =
    Find nat nat
  | Aggregate "stage list"
  | Find_text string
  | Update_one_inc string string
  | Find_one string

text \<open>
  The collection: its documents in natural (insertion) order, and the calls the handlers
  have made on it so far.
\<close>

record store =
  docs :: "song list"
  calls :: "store_call list"

definition called :: "store_call \<Rightarrow> store \<Rightarrow> store" where
  "called c st = st\<lparr>calls := calls st @ [c]\<rparr>"

text \<open>
  The client sends an integer to the store as a signed integer of at most 8 bytes, and
  raises \<^verbatim>\<open>OverflowError\<close> on an integer outside that range.
\<close>

definition in_int64 :: "int \<Rightarrow> bool" where
  "in_int64 i = (- (2 ^ 63) \<le> i \<and> i < 2 ^ 63)"

text \<open>
  \<^verbatim>\<open>collection.find(skip=skip, limit=limit)\<close>, read to its end by \<^verbatim>\<open>json_util.dumps\<close>.
  In the store's client a limit of 0 is the default and means no limit.
\<close>

definition find_docs :: "nat \<Rightarrow> nat \<Rightarrow> song list \<Rightarrow> song list" where
  "find_docs skip limit ds = (if limit = 0 then drop skip ds else take limit (drop skip ds))"

definition coll_find :: "nat \<Rightarrow> nat \<Rightarrow> store \<Rightarrow> (py_exception + song list) \<times> store" where
  "coll_find skip limit st =
     (if in_int64 (int skip) \<and> in_int64 (int limit) then Inr (find_docs skip limit (docs st))
      else Inl OverflowError,
      called (Find skip limit) st)"

text \<open>
  The \<^verbatim>\<open>$group\<close> stage reads the documents one by one and keeps, for each level seen so
  far, the sum of the difficulties and the number of documents; \<^verbatim>\<open>$avg\<close> divides at the
  end.
\<close>

fun group_add :: "song \<Rightarrow> (int \<times> rat \<times> nat) list \<Rightarrow> (int \<times> rat \<times> nat) list" where
  "group_add d [] = [(level d, difficulty d, 1)]"
| "group_add d ((l, s, c) # gs) =
     (if l = level d then (l, s + difficulty d, c + 1) # gs
      else (l, s, c) # group_add d gs)"

definition group_stage :: "song list \<Rightarrow> (int \<times> rat) list" where
  "group_stage ds = map (\<lambda>(l, s, c). (l, s / of_nat c)) (fold group_add ds [])"

text \<open>
  Stages after the first one work on the rows of the \<^verbatim>\<open>$group\<close> stage. The handler
  builds only pipelines that start with the \<^verbatim>\<open>$group\<close> stage and go on with
  \<^verbatim>\<open>$match\<close> stages; the other equations are there for totality.
\<close>

fun run_stage :: "stage \<Rightarrow> (int \<times> rat) list \<Rightarrow> (int \<times> rat) list" where
  "run_stage (Match_id l) rows = filter (\<lambda>r. fst r = l) rows"
| "run_stage Group_level_avg_difficulty rows = rows"

fun aggregate :: "stage list \<Rightarrow> song list \<Rightarrow> (int \<times> rat) list" where
  "aggregate (Group_level_avg_difficulty # stages) ds = fold run_stage stages (group_stage ds)"
| "aggregate _ ds = []"

fun stage_fits :: "stage \<Rightarrow> bool" where
  "stage_fits (Match_id l) = in_int64 l"
| "stage_fits Group_level_avg_difficulty = True"

definition coll_aggregate ::
  "stage list \<Rightarrow> store \<Rightarrow> (py_exception + (int \<times> rat) list) \<times> store" where
  "coll_aggregate pipeline st =
     (if list_all stage_fits pipeline then Inr (aggregate pipeline (docs st))
      else Inl OverflowError,
      called (Aggregate pipeline) st)"

text \<open>
  \<^verbatim>\<open>collection.find({"$text": {"$search": message}})\<close>: the text index and its matching
  belong to the store, so the matching is a parameter \<open>engine\<close>.
\<close>

definition coll_find_text ::
  "(string \<Rightarrow> song list \<Rightarrow> song list) \<Rightarrow> string \<Rightarrow> store \<Rightarrow> song list \<times> store" where
  "coll_find_text engine msg st = (engine msg (docs st), called (Find_text msg) st)"

definition find_one :: "string \<Rightarrow> song list \<Rightarrow> song option" where
  "find_one i ds = find (\<lambda>d. oid d = i) ds"

definition coll_find_one :: "string \<Rightarrow> store \<Rightarrow> song option \<times> store" where
  "coll_find_one i st = (find_one i (docs st), called (Find_one i) st)"

text \<open>
  \<^verbatim>\<open>update_one({"_id": i}, {"$inc": {"rating.k": 1}})\<close>: the first document whose
  identifier is \<open>i\<close> gets its counter \<open>k\<close> raised by one; a counter, or the whole
  \<^verbatim>\<open>rating\<close> field, that is absent is created with the value 1. The result is
  \<^verbatim>\<open>matched_count\<close>.
\<close>

fun inc_key :: "string \<Rightarrow> (string \<times> int) list \<Rightarrow> (string \<times> int) list" where
  "inc_key k [] = [(k, 1)]"
| "inc_key k ((k', v) # r) = (if k' = k then (k', v + 1) # r else (k', v) # inc_key k r)"

definition inc_rating :: "string \<Rightarrow> song \<Rightarrow> song" where
  "inc_rating k d = d\<lparr>rating := Some (inc_key k (case rating d of None \<Rightarrow> [] | Some r \<Rightarrow> r))\<rparr>"

fun update_one_inc :: "string \<Rightarrow> string \<Rightarrow> song list \<Rightarrow> nat \<times> song list" where
  "update_one_inc i k [] = (0, [])"
| "update_one_inc i k (d # ds) =
     (if oid d = i then (1, inc_rating k d # ds)
      else (case update_one_inc i k ds of (m, ds') \<Rightarrow> (m, d # ds')))"

definition coll_update_one_inc :: "string \<Rightarrow> string \<Rightarrow> store \<Rightarrow> nat \<times> store" where
  "coll_update_one_inc i k st =
     (case update_one_inc i k (docs st) of
        (m, ds') \<Rightarrow> (m, called (Update_one_inc i k) (st\<lparr>docs := ds'\<rparr>)))"

section \<open>server.py\<close>

datatype body =
    Song_list "song list"
  | Group_list "(int \<times> rat) list"
  | Message string
  | Status_OK
  | Rating_stats string int int rat

text \<open>
  What a handler does: it returns a response with a status and a body, or an exception
  leaves it unhandled.
\<close>

datatype response = Response nat body | Unhandled py_exception

definition error_response :: "ApiError \<Rightarrow> response" where
  "error_response e = Response (status_code e) (Message (message e))"

subsection \<open>GET /songs\<close>

text \<open>One round of the validation loop, for the argument \<open>name\<close> with the value \<open>val\<close>.\<close>

definition validate_arg :: "string \<Rightarrow> arg \<Rightarrow> response + arg" where
  "validate_arg name val =
     (if truthy val then
        (case int_of_arg val of
           None \<Rightarrow> Inl (error_response (InvalidArgumentError (str_of_arg val) name))
         | Some i \<Rightarrow>
             if i < 0 then Inl (error_response (InvalidArgumentError (str_of_arg val) name))
             else Inr (AInt i))
      else Inr val)"

text \<open>
  The dictionary \<^verbatim>\<open>args\<close> is visited in the order of its keys, \<^verbatim>\<open>p\<close> then \<^verbatim>\<open>n\<close>.
  After the loop both values are integers; the last branch (arithmetic on a string) is
  there for totality.
\<close>

definition get_songs :: "string option \<Rightarrow> string option \<Rightarrow> store \<Rightarrow> response \<times> store" where
  "get_songs p n st =
     (case validate_arg ''p'' (or_default p 0) of
        Inl r \<Rightarrow> (r, st)
      | Inr vp \<Rightarrow>
         (case validate_arg ''n'' (or_default n 10) of
            Inl r \<Rightarrow> (r, st)
          | Inr vn \<Rightarrow>
             (case (vp, vn) of
                (AInt page, AInt limit) \<Rightarrow>
                  (case coll_find (nat (page * limit)) (nat limit) st of
                     (Inl e, st') \<Rightarrow> (Unhandled e, st')
                   | (Inr res, st') \<Rightarrow> (Response 200 (Song_list res), st'))
              | _ \<Rightarrow> (Unhandled TypeError, st))))"

subsection \<open>GET /songs/avg/difficulty\<close>

definition get_avg_difficulty :: "string option \<Rightarrow> store \<Rightarrow> response \<times> store" where
  "get_avg_difficulty lv st =
     (let pipeline = [Group_level_avg_difficulty] in
      case (case lv of None \<Rightarrow> Inr pipeline
            | Some s \<Rightarrow>
                if s \<noteq> [] then
                  (case py_int s of
                     Some l \<Rightarrow> Inr (pipeline @ [Match_id l])
                   | None \<Rightarrow> Inl (error_response (InvalidArgumentError s ''level'')))
                else Inr pipeline) of
        Inl r \<Rightarrow> (r, st)
      | Inr pl \<Rightarrow>
          (case coll_aggregate pl st of
             (Inl e, st') \<Rightarrow> (Unhandled e, st')
           | (Inr rows, st') \<Rightarrow> (Response 200 (Group_list rows), st')))"

subsection \<open>GET /songs/search\<close>

definition songs_search ::
  "(string \<Rightarrow> song list \<Rightarrow> song list) \<Rightarrow> string option \<Rightarrow> store \<Rightarrow> response \<times> store" where
  "songs_search engine msg st =
     (case msg of
        None \<Rightarrow> (error_response (MissingRequireArgumentError ''message'' ''/songs/search''), st)
      | Some m \<Rightarrow>
          if m = [] then
            (error_response (MissingRequireArgumentError ''message'' ''/songs/search''), st)
          else (case coll_find_text engine m st of (q, st') \<Rightarrow> (Response 200 (Song_list q), st')))"

subsection \<open>POST /songs/rating\<close>

definition allowed_ratings :: "string list" where
  "allowed_ratings = [''1'', ''2'', ''3'', ''4'', ''5'']"

definition songs_rating :: "string option \<Rightarrow> string option \<Rightarrow> store \<Rightarrow> response \<times> store" where
  "songs_rating song_id rt st =
     (if (case song_id of None \<Rightarrow> True | Some s \<Rightarrow> s = []) then
        (error_response (MissingRequireArgumentError ''song_id'' ''/songs/rating''), st)
      else
        (case ObjectId (str_of_opt song_id) of
           None \<Rightarrow> (error_response (InvalidArgumentError (str_of_opt song_id) ''song_id''), st)
         | Some i \<Rightarrow>
             (case rt of
                None \<Rightarrow> (error_response (InvalidArgumentError (str_of_opt rt) ''rating''), st)
              | Some r \<Rightarrow>
                  if r = [] \<or> r \<notin> set allowed_ratings then
                    (error_response (InvalidArgumentError (str_of_opt rt) ''rating''), st)
                  else
                    (case coll_update_one_inc i r st of
                       (matched_count, st') \<Rightarrow>
                         if matched_count = 0 then
                           (error_response (ObjectNotFoundError i), st')
                         else (Response 200 Status_OK, st')))))"

subsection \<open>GET /songs/avg/rating/<song_id>\<close>

text \<open>\<^verbatim>\<open>[int(i) for i in ratings.keys()]\<close>: the first key that is no integer raises.\<close>

fun int_keys :: "(string \<times> int) list \<Rightarrow> py_exception + int list" where
  "int_keys [] = Inr []"
| "int_keys ((k, v) # r) =
     (case py_int k of
        None \<Rightarrow> Inl ValueError_invalid_literal
      | Some i \<Rightarrow> (case int_keys r of Inl e \<Rightarrow> Inl e | Inr js \<Rightarrow> Inr (i # js)))"

definition py_min :: "int list \<Rightarrow> py_exception + int" where
  "py_min xs = (case xs of [] \<Rightarrow> Inl ValueError_empty_sequence | x # r \<Rightarrow> Inr (fold min r x))"

definition py_max :: "int list \<Rightarrow> py_exception + int" where
  "py_max xs = (case xs of [] \<Rightarrow> Inl ValueError_empty_sequence | x # r \<Rightarrow> Inr (fold max r x))"

text \<open>
  The loop over \<^verbatim>\<open>ratings.items()\<close>. It runs only after \<^verbatim>\<open>int(k)\<close> has succeeded on
  every key, and on such a key \<^verbatim>\<open>float(k)\<close> is the same number; the loop therefore
  takes the keys as the integers already read.
\<close>

fun accumulate :: "(int \<times> int) list \<Rightarrow> rat \<times> int \<Rightarrow> rat \<times> int" where
  "accumulate [] (accu, count) = (accu, count)"
| "accumulate ((k, v) # r) (accu, count) = accumulate r (accu + of_int k * of_int v, count + v)"

definition rating_stats :: "(string \<times> int) list \<Rightarrow> py_exception + (int \<times> int \<times> rat)" where
  "rating_stats ratings =
     (case int_keys ratings of
        Inl e \<Rightarrow> Inl e
      | Inr ks \<Rightarrow>
         (case py_min ks of
            Inl e \<Rightarrow> Inl e
          | Inr min_rating \<Rightarrow>
             (case py_max ks of
                Inl e \<Rightarrow> Inl e
              | Inr max_rating \<Rightarrow>
                 (case accumulate (zip ks (map snd ratings)) (0, 0) of
                    (accu, count) \<Rightarrow>
                      if count = 0 then Inl ZeroDivisionError
                      else Inr (min_rating, max_rating, accu / of_int count)))))"

definition songs_ratings :: "string \<Rightarrow> store \<Rightarrow> response \<times> store" where
  "songs_ratings song_id st =
     (case ObjectId song_id of
        None \<Rightarrow> (error_response (InvalidArgumentError song_id ''song_id''), st)
      | Some i \<Rightarrow>
         (case coll_find_one i st of
            (None, st') \<Rightarrow> (Unhandled TypeError, st')
          | (Some s, st') \<Rightarrow>
             (case rating s of
                None \<Rightarrow> (Unhandled KeyError, st')
              | Some ratings \<Rightarrow>
                 (case rating_stats ratings of
                    Inl e \<Rightarrow> (Unhandled e, st')
                  | Inr (min_rating, max_rating, avg_rating) \<Rightarrow>
                      (Response 200 (Rating_stats (oid s) min_rating max_rating avg_rating),
                       st')))))"

section \<open>Notions of the specification\<close>

text \<open>
  The rating values with a non-zero recorded count, of a rating dictionary whose keys
  have been read as integers.
\<close>

definition nonzero_values :: "(int \<times> int) list \<Rightarrow> int list" where
  "nonzero_values kvs = map fst (filter (\<lambda>kv. snd kv \<noteq> 0) kvs)"

text \<open>The recorded count of a rating value on a song; an absent key counts as zero.\<close>

definition count_of :: "string \<Rightarrow> song \<Rightarrow> int" where
  "count_of k d =
     (case rating d of None \<Rightarrow> 0
      | Some r \<Rightarrow> (case map_of r k of None \<Rightarrow> 0 | Some v \<Rightarrow> v))"

text \<open>The arithmetic mean of \<^verbatim>\<open>difficulty\<close> over the documents of one level.\<close>

definition mean_difficulty :: "int \<Rightarrow> song list \<Rightarrow> rat" where
  "mean_difficulty l ds =
     sum_list (map difficulty (filter (\<lambda>d. level d = l) ds))
       / of_nat (length (filter (\<lambda>d. level d = l) ds))"

text \<open>The levels of a collection, each once, in the order of their first document.\<close>

definition level_order :: "song list \<Rightarrow> int list" where
  "level_order ds = rev (remdups (rev (map level ds)))"

section \<open>Example collections\<close>

definition fixture_id :: string where
  "fixture_id = ''5a0b1c2d3e4f5a0b1c2d3e4f''"

definition other_id :: string where
  "other_id = ''000000000000000000000000''"

definition fixture_song :: song where
  "fixture_song = \<lparr>oid = fixture_id, artist = ''Mr Fastfinger'', title = ''Awaki-Waki'',
     level = 13, difficulty = 15, rating = None\<rparr>"

definition fixture_store :: store where
  "fixture_store = \<lparr>docs = [fixture_song], calls = []\<rparr>"

text \<open>A collection whose one song has the rating dictionary \<open>r\<close>.\<close>

definition rated_store :: "(string \<times> int) list \<Rightarrow> store" where
  "rated_store r = \<lparr>docs = [fixture_song\<lparr>rating := Some r\<rparr>], calls = []\<rparr>"

text \<open>A collection of three songs, one of level 9 and two of level 13.\<close>

definition level_store :: store where
  "level_store =
     \<lparr>docs = [fixture_song\<lparr>oid := other_id, level := 9, difficulty := 10\<rparr>,
              fixture_song,
              fixture_song\<lparr>oid := ''111111111111111111111111'', difficulty := 16\<rparr>],
      calls = []\<rparr>"

section \<open>Reading integers and validating arguments\<close>

lemma py_int_empty: "py_int [] = None"
  by (simp add: py_int_def strip_def)

lemma py_int_nonempty: "py_int s = Some i \<Longrightarrow> s \<noteq> []"
  by (auto simp: py_int_empty)

lemma validate_arg_str_ok:
  "py_int s = Some i \<Longrightarrow> 0 \<le> i \<Longrightarrow> validate_arg name (AStr s) = Inr (AInt i)"
  by (auto simp: validate_arg_def py_int_empty)

lemma validate_arg_str_bad:
  "s \<noteq> [] \<Longrightarrow> py_int s = None \<or> (\<exists>i. py_int s = Some i \<and> i < 0) \<Longrightarrow>
   validate_arg name (AStr s) = Inl (error_response (InvalidArgumentError s name))"
  by (auto simp: validate_arg_def)

lemma validate_arg_int: "0 \<le> i \<Longrightarrow> validate_arg name (AInt i) = Inr (AInt i)"
  by (auto simp: validate_arg_def)

lemma or_default_empty: "or_default (Some []) d = or_default None d"
  by (simp add: or_default_def)

section \<open>GET /songs\<close>

text \<open>
  For a page number \<open>p \<ge> 0\<close> and a page size \<open>n > 0\<close>, both \<open>n\<close> and \<open>p * n\<close> within
  the 8 bytes of the store's integers, the handler answers 200 with the documents after the
  first \<open>p * n\<close>, at most \<open>n\<close> of them, in the order of the collection:
  \<open>min n (total - p * n)\<close> documents, none when \<open>p * n \<ge> total\<close>.
\<close>

lemma get_songs_page:
  assumes "py_int ps = Some p" "0 \<le> p" "py_int ns = Some n" "0 < n"
    and "in_int64 (p * n)" "in_int64 n"
  shows "get_songs (Some ps) (Some ns) st =
           (Response 200 (Song_list (take (nat n) (drop (nat (p * n)) (docs st)))),
            called (Find (nat (p * n)) (nat n)) st)"
    and "length (take (nat n) (drop (nat (p * n)) (docs st))) =
           min (nat n) (length (docs st) - nat (p * n))"
proof -
  have "ps \<noteq> []" "ns \<noteq> []" using assms py_int_nonempty by blast+
  moreover have "0 \<le> p * n" using assms by simp
  ultimately show "get_songs (Some ps) (Some ns) st =
           (Response 200 (Song_list (take (nat n) (drop (nat (p * n)) (docs st)))),
            called (Find (nat (p * n)) (nat n)) st)"
    using assms
    by (simp add: get_songs_def or_default_def validate_arg_str_ok coll_find_def find_docs_def)
  show "length (take (nat n) (drop (nat (p * n)) (docs st))) =
           min (nat n) (length (docs st) - nat (p * n))"
    by simp
qed

text \<open>
  C3. The claim includes the page size 0, and there the handler does not return
  \<open>min 0 total = 0\<close> documents: \<^verbatim>\<open>n=0\<close> passes the validation (only negative
  values are refused), \<^verbatim>\<open>limit = 0\<close> reaches \<^verbatim>\<open>collection.find\<close>, where it means
  no limit, and the whole collection is returned. On a collection of one song,
  \<^verbatim>\<open>GET /songs?n=0\<close> answers with that song.
\<close>

theorem get_songs_limit_zero:
  "py_int ''0'' = Some 0 \<and>
   fst (get_songs None (Some ''0'') fixture_store) = Response 200 (Song_list [fixture_song])"
  by code_simp

text \<open>
  C5, as amended. A value of \<^verbatim>\<open>p\<close> that is not empty and is no integer, or a negative
  one, is answered with status 500 and the message naming that value and \<^verbatim>\<open>p\<close>. The
  same holds for \<^verbatim>\<open>n\<close> when \<^verbatim>\<open>p\<close> is absent, empty or valid: \<^verbatim>\<open>p\<close> is validated
  first, and the response names the first argument that fails. The store is not called.
\<close>

theorem get_songs_invalid_argument:
  \<open>(ps \<noteq> [] \<and> (py_int ps = None \<or> (\<exists>i. py_int ps = Some i \<and> i < 0)) \<longrightarrow>
      get_songs (Some ps) n st =
        (Response 500
           (Message (''"'' @ ps @ ''" is not a valid argument for parameter "p"'')), st)) \<and>
   (ns \<noteq> [] \<and> (py_int ns = None \<or> (\<exists>i. py_int ns = Some i \<and> i < 0)) \<and>
    (p = None \<or> p = Some [] \<or> (\<exists>ps i. p = Some ps \<and> py_int ps = Some i \<and> 0 \<le> i)) \<longrightarrow>
      get_songs p (Some ns) st =
        (Response 500
           (Message (''"'' @ ns @ ''" is not a valid argument for parameter "n"'')), st))\<close>
proof (intro conjI impI)
  assume "ps \<noteq> [] \<and> (py_int ps = None \<or> (\<exists>i. py_int ps = Some i \<and> i < 0))"
  then have "validate_arg ''p'' (or_default (Some ps) 0) =
               Inl (error_response (InvalidArgumentError ps ''p''))"
    by (simp add: or_default_def validate_arg_str_bad)
  then show \<open>get_songs (Some ps) n st =
        (Response 500
           (Message (''"'' @ ps @ ''" is not a valid argument for parameter "p"'')), st)\<close>
    by (simp add: get_songs_def error_response_def InvalidArgumentError_def)
next
  assume a: "ns \<noteq> [] \<and> (py_int ns = None \<or> (\<exists>i. py_int ns = Some i \<and> i < 0)) \<and>
    (p = None \<or> p = Some [] \<or> (\<exists>ps i. p = Some ps \<and> py_int ps = Some i \<and> 0 \<le> i))"
  then have n: "validate_arg ''n'' (or_default (Some ns) 10) =
               Inl (error_response (InvalidArgumentError ns ''n''))"
    by (simp add: or_default_def validate_arg_str_bad)
  from a have "\<exists>v. validate_arg ''p'' (or_default p 0) = Inr v"
    by (auto simp: or_default_def validate_arg_int validate_arg_str_ok py_int_empty)
  with n show \<open>get_songs p (Some ns) st =
        (Response 500
           (Message (''"'' @ ns @ ''" is not a valid argument for parameter "n"'')), st)\<close>
    by (auto simp: get_songs_def error_response_def InvalidArgumentError_def)
qed

text \<open>
  Witness for C5: \<^verbatim>\<open>GET /songs?p=fake\<close>, \<^verbatim>\<open>GET /songs?n=-1\<close>, and a request whose
  \<^verbatim>\<open>p\<close> is the digit 5 after the separator of code point 28 and whose \<^verbatim>\<open>n\<close> is
  \<^verbatim>\<open>fake\<close>: both fail, and the response names \<^verbatim>\<open>p\<close>.
\<close>

theorem get_songs_invalid_argument_witness:
  \<open>get_songs (Some ''fake'') None fixture_store =
     (Response 500 (Message ''"fake" is not a valid argument for parameter "p"''), fixture_store) \<and>
   get_songs None (Some ''-1'') fixture_store =
     (Response 500 (Message ''"-1" is not a valid argument for parameter "n"''), fixture_store) \<and>
   get_songs (Some [CHR 0x1C, CHR ''5'']) (Some ''fake'') fixture_store =
     (Response 500
        (Message (''"'' @ [CHR 0x1C, CHR ''5''] @ ''" is not a valid argument for parameter "p"'')),
      fixture_store)\<close>
proof -
  have 1: "py_int ''fake'' = None" by code_simp
  have 2: "py_int ''-1'' = Some (- 1)" by code_simp
  have 3: "py_int [CHR 0x1C, CHR ''5''] = None" by code_simp
  have a: \<open>get_songs (Some ''fake'') None fixture_store =
     (Response 500 (Message ''"fake" is not a valid argument for parameter "p"''), fixture_store) \<and>
   get_songs None (Some ''-1'') fixture_store =
     (Response 500 (Message ''"-1" is not a valid argument for parameter "n"''), fixture_store)\<close>
    using get_songs_invalid_argument [of "''fake''" None fixture_store "''-1''" None] 1 2
    by simp
  have b: \<open>get_songs (Some [CHR 0x1C, CHR ''5'']) (Some ''fake'') fixture_store =
     (Response 500
        (Message (''"'' @ [CHR 0x1C, CHR ''5''] @ ''" is not a valid argument for parameter "p"'')),
      fixture_store)\<close>
    using get_songs_invalid_argument
      [of "[CHR 0x1C, CHR ''5'']" "Some ''fake''" fixture_store "''-1''" None] 3
    by simp
  from a b show ?thesis by blast
qed

text \<open>
  Counterexample to C5 as stated: the empty string is a value of \<^verbatim>\<open>p\<close> that does not
  parse as an integer, and \<^verbatim>\<open>GET /songs?p=\<close> is answered with status 200 and the first
  page.
\<close>

theorem get_songs_empty_argument_accepted:
  "py_int [] = None \<and>
   fst (get_songs (Some []) None fixture_store) = Response 200 (Song_list [fixture_song])"
  by code_simp

text \<open>
  C9. An empty \<^verbatim>\<open>p\<close> or \<^verbatim>\<open>n\<close> is handled as an absent one, so that
  \<^verbatim>\<open>GET /songs?p=&n=\<close> is answered with status 200 and the defaults \<open>p = 0\<close> and
  \<open>n = 10\<close>; an empty \<^verbatim>\<open>level\<close> is handled as an absent one, and the pipeline has
  no \<^verbatim>\<open>$match\<close> stage.
\<close>

theorem empty_argument_is_absent:
  "get_songs (Some []) n st = get_songs None n st \<and>
   get_songs p (Some []) st = get_songs p None st \<and>
   get_songs (Some []) (Some []) st =
     (Response 200 (Song_list (take 10 (docs st))), called (Find 0 10) st) \<and>
   get_avg_difficulty (Some []) st = get_avg_difficulty None st \<and>
   get_avg_difficulty None st =
     (Response 200 (Group_list (group_stage (docs st))),
      called (Aggregate [Group_level_avg_difficulty]) st)"
proof (intro conjI)
  show "get_songs (Some []) n st = get_songs None n st"
    by (simp add: get_songs_def or_default_empty)
  show "get_songs p (Some []) st = get_songs p None st"
    unfolding get_songs_def or_default_empty by (rule refl)
  show "get_songs (Some []) (Some []) st =
     (Response 200 (Song_list (take 10 (docs st))), called (Find 0 10) st)"
    by (simp add: get_songs_def or_default_def validate_arg_def coll_find_def find_docs_def
        in_int64_def)
  show "get_avg_difficulty (Some []) st = get_avg_difficulty None st"
    by (simp add: get_avg_difficulty_def)
  show "get_avg_difficulty None st =
     (Response 200 (Group_list (group_stage (docs st))),
      called (Aggregate [Group_level_avg_difficulty]) st)"
    by (simp add: get_avg_difficulty_def coll_aggregate_def)
qed

section \<open>GET /songs/search\<close>

text \<open>
  C8. When \<^verbatim>\<open>message\<close> is absent or empty the handler answers with status 500 and
  the message of \<^verbatim>\<open>MissingRequireArgumentError\<close> for the endpoint \<^verbatim>\<open>/songs/search\<close>,
  and the store is returned as it was: no call is made on it, so no search is performed.
\<close>

theorem songs_search_missing_message:
  \<open>songs_search engine None st =
     (Response 500 (Message ''argument "message" is required for endpoint "/songs/search"''), st) \<and>
   songs_search engine (Some []) st =
     (Response 500 (Message ''argument "message" is required for endpoint "/songs/search"''), st)\<close>
  by (simp add: songs_search_def error_response_def MissingRequireArgumentError_def)

section \<open>GET /songs/avg/rating/<song_id>\<close>

lemma py_min_Min: "ks \<noteq> [] \<Longrightarrow> py_min ks = Inr (Min (set ks))"
  by (cases ks) (simp_all add: py_min_def Min.set_eq_fold [symmetric])

lemma py_max_Max: "ks \<noteq> [] \<Longrightarrow> py_max ks = Inr (Max (set ks))"
  by (cases ks) (simp_all add: py_max_def Max.set_eq_fold [symmetric])

lemma accumulate_sums:
  "accumulate kvs (a, c) =
     (a + sum_list (map (\<lambda>(k, v). of_int k * of_int v) kvs), c + sum_list (map snd kvs))"
  by (induction kvs arbitrary: a c) (auto simp: algebra_simps)

lemma int_keys_length: "int_keys r = Inr ks \<Longrightarrow> length ks = length r"
  by (induction r arbitrary: ks) (auto split: option.splits sum.splits)

lemma int_keys_empty: "int_keys r = Inr ks \<Longrightarrow> r \<noteq> [] \<Longrightarrow> ks \<noteq> []"
  using int_keys_length by fastforce

lemma rating_stats_value:
  assumes "ratings \<noteq> []" "int_keys ratings = Inr ks" "sum_list (map snd ratings) \<noteq> 0"
  shows "rating_stats ratings =
           Inr (Min (set ks), Max (set ks),
                sum_list (map (\<lambda>(k, v). of_int k * of_int v) (zip ks (map snd ratings)))
                  / of_int (sum_list (map snd ratings)))"
proof -
  have ks: "ks \<noteq> []" using assms int_keys_empty by blast
  have len: "length ks = length (map snd ratings)" using assms int_keys_length by simp
  have "map snd (zip ks (map snd ratings)) = map snd ratings"
    using len by (rule map_snd_zip)
  then show ?thesis
    using assms ks by (simp add: rating_stats_def py_min_Min py_max_Max accumulate_sums)
qed

lemma rating_stats_empty: "rating_stats [] = Inl ValueError_empty_sequence"
  by (simp add: rating_stats_def py_min_def)

lemma songs_ratings_found:
  assumes "ObjectId song_id = Some i" "find_one i (docs st) = Some s" "rating s = Some ratings"
  shows "fst (songs_ratings song_id st) =
           (case rating_stats ratings of
              Inl e \<Rightarrow> Unhandled e
            | Inr (mn, mx, av) \<Rightarrow> Response 200 (Rating_stats (oid s) mn mx av))"
  using assms by (simp add: songs_ratings_def coll_find_one_def split: sum.splits prod.splits)

lemma nonzero_values_all:
  "length ks = length vs \<Longrightarrow> list_all (\<lambda>v. v \<noteq> 0) vs \<Longrightarrow> nonzero_values (zip ks vs) = ks"
proof -
  assume len: "length ks = length vs" and nz: "list_all (\<lambda>v. v \<noteq> 0) vs"
  have "filter (\<lambda>kv. snd kv \<noteq> 0) (zip ks vs) = zip ks vs"
    using nz by (auto simp: filter_id_conv list_all_iff dest: set_zip_rightD)
  then show ?thesis using len by (simp add: nonzero_values_def)
qed

lemma songs_ratings_not_found:
  "ObjectId song_id = Some i \<Longrightarrow> find_one i (docs st) = None \<Longrightarrow>
   songs_ratings song_id st = (Unhandled TypeError, called (Find_one i) st)"
  by (simp add: songs_ratings_def coll_find_one_def)

text \<open>
  C1. The claim asks for status 404 when the identifier is well formed and no document
  has it. The handler does not test the result of \<^verbatim>\<open>find_one\<close>: it is \<^verbatim>\<open>None\<close>,
  \<^verbatim>\<open>song['rating']\<close> raises \<^verbatim>\<open>TypeError\<close>, and no response is built.
\<close>

theorem songs_ratings_unknown_id:
  "ObjectId other_id = Some other_id \<and> find_one other_id (docs fixture_store) = None \<and>
   songs_ratings other_id fixture_store =
     (Unhandled TypeError, called (Find_one other_id) fixture_store)"
  by code_simp

text \<open>
  What the handler computes on a song whose rating dictionary is not empty, has integer
  keys and a total count other than zero: the response is 200 with \<^verbatim>\<open>min_rating\<close> and
  \<^verbatim>\<open>max_rating\<close> the smallest and the largest key of the dictionary, whatever their
  counts, and \<^verbatim>\<open>avg_rating\<close> the sum of value times count divided by the sum of the
  counts. When no recorded count is zero, the keys are the values with a non-zero count,
  and the three numbers are those of the ratings given.
\<close>

lemma songs_ratings_stats:
  assumes "ObjectId song_id = Some i" "find_one i (docs st) = Some s" "rating s = Some ratings"
    and "ratings \<noteq> []" "int_keys ratings = Inr ks" "sum_list (map snd ratings) \<noteq> 0"
  shows "fst (songs_ratings song_id st) =
           Response 200 (Rating_stats (oid s) (Min (set ks)) (Max (set ks))
             (sum_list (map (\<lambda>(k, v). of_int k * of_int v) (zip ks (map snd ratings)))
                / of_int (sum_list (map snd ratings)))) \<and>
         (list_all (\<lambda>v. v \<noteq> 0) (map snd ratings) \<longrightarrow>
            nonzero_values (zip ks (map snd ratings)) = ks)"
proof
  show "fst (songs_ratings song_id st) =
           Response 200 (Rating_stats (oid s) (Min (set ks)) (Max (set ks))
             (sum_list (map (\<lambda>(k, v). of_int k * of_int v) (zip ks (map snd ratings)))
                / of_int (sum_list (map snd ratings))))"
    using songs_ratings_found [OF assms(1-3)] rating_stats_value [OF assms(4-6)] by simp
  have "length ks = length (map snd ratings)" using assms(5) int_keys_length by simp
  then show "list_all (\<lambda>v. v \<noteq> 0) (map snd ratings) \<longrightarrow>
            nonzero_values (zip ks (map snd ratings)) = ks"
    using nonzero_values_all by blast
qed

text \<open>
  Two examples: a song rated once with the value 4 has minimum, maximum and average 4; a
  song rated three times with 5, twice with 3 and once with 2 has minimum 2, maximum 5 and
  average 23/6.
\<close>

lemma songs_ratings_stats_examples:
  "fst (songs_ratings fixture_id (rated_store [(''4'', 1)])) =
     Response 200 (Rating_stats fixture_id 4 4 4) \<and>
   fst (songs_ratings fixture_id (rated_store [(''5'', 3), (''2'', 1), (''3'', 2)])) =
     Response 200 (Rating_stats fixture_id 2 5 (23 / 6))"
proof -
  have 1: "ObjectId fixture_id = Some fixture_id" by code_simp
  have 2: "find_one fixture_id (docs (rated_store r)) = Some (fixture_song\<lparr>rating := Some r\<rparr>)"
    for r by (simp add: find_one_def rated_store_def fixture_song_def)
  have 3: "int_keys [(''4'', 1)] = Inr [4]" by code_simp
  have 4: "int_keys [(''5'', 3), (''2'', 1), (''3'', 2)] = Inr [5, 2, 3]" by code_simp
  have 5: "oid (fixture_song\<lparr>rating := Some r\<rparr>) = fixture_id" for r
    by (simp add: fixture_song_def)
  have a: "fst (songs_ratings fixture_id (rated_store [(''4'', 1)])) =
     Response 200 (Rating_stats fixture_id 4 4 4)"
    using songs_ratings_stats [OF 1 2 _ _ 3] 5 by simp
  have b: "fst (songs_ratings fixture_id (rated_store [(''5'', 3), (''2'', 1), (''3'', 2)])) =
     Response 200 (Rating_stats fixture_id 2 5 (23 / 6))"
    using songs_ratings_stats [OF 1 2 _ _ 4] 5 by simp
  from a b show ?thesis by blast
qed

text \<open>
  C2. The claim asks for the smallest and the largest rating value whose recorded count is
  not zero. The handler takes \<^verbatim>\<open>min\<close> and \<^verbatim>\<open>max\<close> over all the keys of the dictionary
  and never looks at their counts: with the ratings \<^verbatim>\<open>{"1": 0, "4": 1}\<close> the one rating
  given is 4, the average it returns is 4, and the \<^verbatim>\<open>min_rating\<close> it returns is 1.
\<close>

theorem songs_ratings_zero_count_key:
  "fst (songs_ratings fixture_id (rated_store [(''1'', 0), (''4'', 1)])) =
     Response 200 (Rating_stats fixture_id 1 4 4) \<and>
   Min (set (nonzero_values [(1, 0), (4, 1)])) = 4"
  by code_simp

text \<open>
  C7, as amended. On a song whose rating dictionary is empty the handler fails before
  it divides: \<^verbatim>\<open>min\<close> of the empty list of keys raises \<^verbatim>\<open>ValueError\<close>, which nothing
  handles. The operation is not total on empty dictionaries.
\<close>

theorem songs_ratings_empty_mapping:
  assumes "ObjectId song_id = Some i" "find_one i (docs st) = Some s" "rating s = Some []"
  shows "fst (songs_ratings song_id st) = Unhandled ValueError_empty_sequence"
  using songs_ratings_found [OF assms] by (simp add: rating_stats_empty)

text \<open>
  Witness for C7: the example song with the rating dictionary \<^verbatim>\<open>{}\<close>.
\<close>

theorem songs_ratings_empty_mapping_witness:
  "fst (songs_ratings fixture_id (rated_store [])) = Unhandled ValueError_empty_sequence"
proof -
  have 1: "ObjectId fixture_id = Some fixture_id" by code_simp
  have 2: "find_one fixture_id (docs (rated_store [])) = Some (fixture_song\<lparr>rating := Some []\<rparr>)"
    by code_simp
  show ?thesis using songs_ratings_empty_mapping [OF 1 2] by simp
qed

text \<open>
  Counterexample to C7 as stated: on the empty rating dictionary the failure is not a
  division by zero.
\<close>

theorem songs_ratings_empty_no_division:
  "rating (fixture_song\<lparr>rating := Some []\<rparr>) = Some [] \<and>
   fst (songs_ratings fixture_id (rated_store [])) \<noteq> Unhandled ZeroDivisionError"
  by code_simp

section \<open>POST /songs/rating\<close>

text \<open>
  Which strings \<^verbatim>\<open>ObjectId\<close> takes: none of a length other than 24 and none with a
  character that is neither a hexadecimal digit nor ASCII whitespace; every string of 24
  hexadecimal digits, whose identifier then prints as 24 digits. A string of 24 characters
  with whitespace between its pairs of digits is taken too, as an identifier of fewer bytes.
\<close>

lemma ObjectId_whitespace_example:
  "ObjectId ''5a 0b 1c 2d 3e 4f 5a 0b '' = Some ''5a0b1c2d3e4f5a0b''"
  by code_simp

lemma ObjectId_nonempty: "ObjectId s = Some i \<Longrightarrow> s \<noteq> []"
  by (auto simp: ObjectId_def split: if_splits)

lemma ObjectId_length: "length s \<noteq> 24 \<Longrightarrow> ObjectId s = None"
  by (simp add: ObjectId_def)

lemma is_hex_not_space: "is_hex c \<Longrightarrow> \<not> is_ascii_space c"
  by (auto simp: is_hex_def is_ascii_space_def Let_def)

lemma fromhex_chars:
  "fromhex s = Some bs \<Longrightarrow> list_all (\<lambda>c. is_hex c \<or> is_ascii_space c) s"
  by (induction s arbitrary: bs rule: fromhex.induct) (auto split: if_splits)

lemma ObjectId_bad_char:
  "\<not> list_all (\<lambda>c. is_hex c \<or> is_ascii_space c) s \<Longrightarrow> ObjectId s = None"
  using fromhex_chars by (cases "fromhex s") (auto simp: ObjectId_def)

lemma fromhex_hex:
  "list_all is_hex s \<Longrightarrow> even (length s) \<Longrightarrow>
   \<exists>bs. fromhex s = Some bs \<and> 2 * length bs = length s"
  by (induction s rule: fromhex.induct) (auto simp: is_hex_not_space)

lemma length_hexlify: "length (hexlify bs) = 2 * length bs"
  by (induction bs) (simp_all add: hexlify_def)

lemma ObjectId_hex:
  assumes "length s = 24" "list_all is_hex s"
  shows "\<exists>i. ObjectId s = Some i \<and> length i = 24"
proof -
  from assms obtain bs where "fromhex s = Some bs" "2 * length bs = length s"
    using fromhex_hex [of s] by auto
  with assms(1) show ?thesis by (simp add: ObjectId_def length_hexlify)
qed

lemma update_one_inc_none:
  "find_one i ds = None \<Longrightarrow> update_one_inc i k ds = (0, ds)"
  by (induction ds) (auto simp: find_one_def split: if_splits)

lemma update_one_inc_some:
  "find_one i ds = Some d \<Longrightarrow>
   \<exists>pre post. ds = pre @ d # post \<and> list_all (\<lambda>x. oid x \<noteq> i) pre \<and>
     update_one_inc i k ds = (1, pre @ inc_rating k d # post)"
proof (induction ds)
  case Nil
  then show ?case by (simp add: find_one_def)
next
  case (Cons x ds)
  show ?case
  proof (cases "oid x = i")
    case True
    with Cons.prems have "x = d" by (simp add: find_one_def)
    with True have "x # ds = [] @ d # ds \<and> list_all (\<lambda>x. oid x \<noteq> i) [] \<and>
        update_one_inc i k (x # ds) = (1, [] @ inc_rating k d # ds)"
      by simp
    then show ?thesis by blast
  next
    case False
    with Cons.prems have "find_one i ds = Some d" by (simp add: find_one_def)
    with Cons.IH obtain pre post where
      "ds = pre @ d # post" "list_all (\<lambda>x. oid x \<noteq> i) pre"
      "update_one_inc i k ds = (1, pre @ inc_rating k d # post)"
      by blast
    with False have "x # ds = (x # pre) @ d # post \<and> list_all (\<lambda>x. oid x \<noteq> i) (x # pre) \<and>
        update_one_inc i k (x # ds) = (1, (x # pre) @ inc_rating k d # post)"
      by simp
    then show ?thesis by blast
  qed
qed

lemma map_of_inc_key:
  "map_of (inc_key k r) k' =
     (if k' = k then Some (case map_of r k of None \<Rightarrow> 1 | Some v \<Rightarrow> v + 1) else map_of r k')"
  by (induction r) auto

lemma count_of_inc_rating:
  "count_of k' (inc_rating k d) = (if k' = k then count_of k d + 1 else count_of k' d)"
  by (auto simp: count_of_def inc_rating_def map_of_inc_key split: option.splits)

lemma songs_rating_valid:
  assumes "ObjectId s = Some i" "r \<in> set allowed_ratings"
  shows "songs_rating (Some s) (Some r) st =
           (case update_one_inc i r (docs st) of
              (m, ds') \<Rightarrow>
                (if m = 0 then error_response (ObjectNotFoundError i) else Response 200 Status_OK,
                 called (Update_one_inc i r) (st\<lparr>docs := ds'\<rparr>)))"
proof -
  have "s \<noteq> []" using assms(1) by (rule ObjectId_nonempty)
  moreover have "r \<noteq> []" using assms(2) by (auto simp: allowed_ratings_def)
  ultimately show ?thesis
    using assms
    by (simp add: songs_rating_def str_of_opt_def coll_update_one_inc_def split: prod.splits)
qed

text \<open>
  C4, as amended. The checks of \<^verbatim>\<open>songs_rating\<close>, in their order: a \<^verbatim>\<open>song_id\<close> that
  is absent or empty gives \<^verbatim>\<open>MissingRequireArgumentError\<close> with status 500; a non-empty
  one that \<^verbatim>\<open>ObjectId\<close> refuses gives \<^verbatim>\<open>InvalidArgumentError\<close> for \<^verbatim>\<open>song_id\<close>
  with status 500; then, for a \<^verbatim>\<open>song_id\<close> of 24 hexadecimal digits, a \<^verbatim>\<open>rating\<close>
  that is absent or not among \<^verbatim>\<open>'1'\<close> to \<^verbatim>\<open>'5'\<close> gives \<^verbatim>\<open>InvalidArgumentError\<close>
  for \<^verbatim>\<open>rating\<close> with status 500; then an identifier that no document has gives
  \<^verbatim>\<open>ObjectNotFoundError\<close> with status 404 and leaves the documents as they were;
  otherwise the response is 200 with the body \<^verbatim>\<open>{"status": "OK"}\<close>, the first document
  with that identifier has its counter for the rating raised by exactly one, its other
  counters and fields are kept, and so are the other documents.
\<close>

theorem songs_rating_characterization:
  \<open>((song_id = None \<or> song_id = Some []) \<longrightarrow>
      songs_rating song_id rt st =
        (Response 500
           (Message ''argument "song_id" is required for endpoint "/songs/rating"''), st)) \<and>
   (s \<noteq> [] \<and> ObjectId s = None \<longrightarrow>
      songs_rating (Some s) rt st =
        (Response 500
           (Message (''"'' @ s @ ''" is not a valid argument for parameter "song_id"'')), st)) \<and>
   (list_all is_hex s \<and> ObjectId s = Some i \<and>
    (rt = None \<or> (\<exists>x. rt = Some x \<and> x \<notin> set allowed_ratings)) \<longrightarrow>
      songs_rating (Some s) rt st =
        (Response 500
           (Message (''"'' @ str_of_opt rt @ ''" is not a valid argument for parameter "rating"'')),
         st)) \<and>
   (list_all is_hex s \<and> ObjectId s = Some i \<and> r \<in> set allowed_ratings \<and>
    find_one i (docs st) = None \<longrightarrow>
      songs_rating (Some s) (Some r) st =
        (Response 404 (Message (''song_id "'' @ i @ ''" not found'')),
         called (Update_one_inc i r) st)) \<and>
   (list_all is_hex s \<and> ObjectId s = Some i \<and> r \<in> set allowed_ratings \<and>
    find_one i (docs st) = Some d \<longrightarrow>
      (\<exists>pre post. docs st = pre @ d # post \<and> list_all (\<lambda>x. oid x \<noteq> i) pre \<and>
         songs_rating (Some s) (Some r) st =
           (Response 200 Status_OK,
            called (Update_one_inc i r) (st\<lparr>docs := pre @ inc_rating r d # post\<rparr>))) \<and>
      count_of r (inc_rating r d) = count_of r d + 1 \<and>
      (\<forall>k. k \<noteq> r \<longrightarrow> count_of k (inc_rating r d) = count_of k d) \<and>
      inc_rating r d = d\<lparr>rating := rating (inc_rating r d)\<rparr>)\<close>
proof (intro conjI impI)
  assume "song_id = None \<or> song_id = Some []"
  then show \<open>songs_rating song_id rt st =
        (Response 500
           (Message ''argument "song_id" is required for endpoint "/songs/rating"''), st)\<close>
    by (auto simp: songs_rating_def error_response_def MissingRequireArgumentError_def)
next
  assume "s \<noteq> [] \<and> ObjectId s = None"
  then show \<open>songs_rating (Some s) rt st =
        (Response 500
           (Message (''"'' @ s @ ''" is not a valid argument for parameter "song_id"'')), st)\<close>
    by (simp add: songs_rating_def str_of_opt_def error_response_def InvalidArgumentError_def)
next
  assume a: "list_all is_hex s \<and> ObjectId s = Some i \<and>
    (rt = None \<or> (\<exists>x. rt = Some x \<and> x \<notin> set allowed_ratings))"
  then have "s \<noteq> []" using ObjectId_nonempty by blast
  with a show \<open>songs_rating (Some s) rt st =
        (Response 500
           (Message (''"'' @ str_of_opt rt @ ''" is not a valid argument for parameter "rating"'')),
         st)\<close>
    by (auto simp: songs_rating_def str_of_opt_def error_response_def InvalidArgumentError_def)
next
  assume a: "list_all is_hex s \<and> ObjectId s = Some i \<and> r \<in> set allowed_ratings \<and>
    find_one i (docs st) = None"
  then have "update_one_inc i r (docs st) = (0, docs st)" by (simp add: update_one_inc_none)
  with a show \<open>songs_rating (Some s) (Some r) st =
        (Response 404 (Message (''song_id "'' @ i @ ''" not found'')),
         called (Update_one_inc i r) st)\<close>
    by (simp add: songs_rating_valid error_response_def ObjectNotFoundError_def)
next
  assume a: "list_all is_hex s \<and> ObjectId s = Some i \<and> r \<in> set allowed_ratings \<and>
    find_one i (docs st) = Some d"
  then obtain pre post where pp: "docs st = pre @ d # post" "list_all (\<lambda>x. oid x \<noteq> i) pre"
    "update_one_inc i r (docs st) = (1, pre @ inc_rating r d # post)"
    using update_one_inc_some by blast
  with a have "songs_rating (Some s) (Some r) st =
           (Response 200 Status_OK,
            called (Update_one_inc i r) (st\<lparr>docs := pre @ inc_rating r d # post\<rparr>))"
    by (simp add: songs_rating_valid)
  with pp show \<open>\<exists>pre post. docs st = pre @ d # post \<and> list_all (\<lambda>x. oid x \<noteq> i) pre \<and>
         songs_rating (Some s) (Some r) st =
           (Response 200 Status_OK,
            called (Update_one_inc i r) (st\<lparr>docs := pre @ inc_rating r d # post\<rparr>))\<close>
    by blast
next
  show "count_of r (inc_rating r d) = count_of r d + 1"
    by (simp add: count_of_inc_rating)
next
  show "\<forall>k. k \<noteq> r \<longrightarrow> count_of k (inc_rating r d) = count_of k d"
    by (simp add: count_of_inc_rating)
next
  show "inc_rating r d = d\<lparr>rating := rating (inc_rating r d)\<rparr>"
    by (simp add: inc_rating_def)
qed

text \<open>
  Witness for C4: the five cases on the example collection.
\<close>

theorem songs_rating_characterization_witness:
  \<open>songs_rating None None fixture_store =
     (Response 500 (Message ''argument "song_id" is required for endpoint "/songs/rating"''),
      fixture_store) \<and>
   songs_rating (Some ''hdhhd'') None fixture_store =
     (Response 500 (Message ''"hdhhd" is not a valid argument for parameter "song_id"''),
      fixture_store) \<and>
   songs_rating (Some fixture_id) (Some ''10'') fixture_store =
     (Response 500 (Message ''"10" is not a valid argument for parameter "rating"''),
      fixture_store) \<and>
   songs_rating (Some other_id) (Some ''4'') fixture_store =
     (Response 404 (Message ''song_id "000000000000000000000000" not found''),
      called (Update_one_inc other_id ''4'') fixture_store) \<and>
   fst (songs_rating (Some fixture_id) (Some ''4'') fixture_store) = Response 200 Status_OK \<and>
   count_of ''4'' (inc_rating ''4'' fixture_song) = count_of ''4'' fixture_song + 1\<close>
proof -
  have 1: "ObjectId ''hdhhd'' = None" by code_simp
  have 2: "ObjectId fixture_id = Some fixture_id" by code_simp
  have 3: "ObjectId other_id = Some other_id" by code_simp
  have 4: "''10'' \<notin> set allowed_ratings" by code_simp
  have 5: "''4'' \<in> set allowed_ratings" by code_simp
  have 6: "find_one other_id (docs fixture_store) = None" by code_simp
  have 7: "find_one fixture_id (docs fixture_store) = Some fixture_song" by code_simp
  have 8: "other_id = ''000000000000000000000000''" by (simp add: other_id_def)
  have 9: "list_all is_hex fixture_id" by code_simp
  have 10: "list_all is_hex other_id" by code_simp
  have a: \<open>songs_rating None None fixture_store =
     (Response 500 (Message ''argument "song_id" is required for endpoint "/songs/rating"''),
      fixture_store) \<and>
   songs_rating (Some ''hdhhd'') None fixture_store =
     (Response 500 (Message ''"hdhhd" is not a valid argument for parameter "song_id"''),
      fixture_store)\<close>
    using songs_rating_characterization [where song_id = None and rt = None
        and st = fixture_store and s = "''hdhhd''" and i = fixture_id and r = "''4''"
        and d = fixture_song] 1
    by simp
  have b: \<open>songs_rating (Some fixture_id) (Some ''10'') fixture_store =
     (Response 500 (Message ''"10" is not a valid argument for parameter "rating"''),
      fixture_store)\<close>
    using songs_rating_characterization [where song_id = None and rt = "Some ''10''"
        and st = fixture_store and s = fixture_id and i = fixture_id and r = "''4''"
        and d = fixture_song] 2 4 9
    by (simp add: str_of_opt_def)
  have c: \<open>songs_rating (Some other_id) (Some ''4'') fixture_store =
     (Response 404 (Message ''song_id "000000000000000000000000" not found''),
      called (Update_one_inc other_id ''4'') fixture_store)\<close>
    using songs_rating_characterization [where song_id = None and rt = None
        and st = fixture_store and s = other_id and i = other_id and r = "''4''"
        and d = fixture_song] 3 5 6 8 10
    by simp
  have d: \<open>fst (songs_rating (Some fixture_id) (Some ''4'') fixture_store) =
       Response 200 Status_OK \<and>
     count_of ''4'' (inc_rating ''4'' fixture_song) = count_of ''4'' fixture_song + 1\<close>
    using songs_rating_characterization [where song_id = None and rt = None
        and st = fixture_store and s = fixture_id and i = fixture_id and r = "''4''"
        and d = fixture_song] 2 5 7 9
    by auto
  from a b c d show ?thesis by blast
qed

text \<open>
  Counterexample to C4 as stated: an empty \<^verbatim>\<open>song_id\<close> is present in the form and is no
  object identifier, and the response is the one of a missing argument, not the one of an
  invalid argument.
\<close>

theorem songs_rating_empty_song_id:
  \<open>ObjectId [] = None \<and>
   songs_rating (Some []) (Some ''4'') fixture_store =
     (Response 500 (Message ''argument "song_id" is required for endpoint "/songs/rating"''),
      fixture_store) \<and>
   fst (songs_rating (Some []) (Some ''4'') fixture_store) \<noteq>
     Response 500 (Message ''"" is not a valid argument for parameter "song_id"'')\<close>
  by code_simp

text \<open>
  C10. When \<^verbatim>\<open>songs_rating\<close> answers with status 500 the store is returned as it was:
  no document is changed and no call is made on the collection. The store is touched only
  after the identifier and the rating have both passed their validation.
\<close>

theorem songs_rating_error_leaves_store:
  "(fst (songs_rating song_id rt st) = Response 500 b \<longrightarrow>
      snd (songs_rating song_id rt st) = st) \<and>
   (snd (songs_rating song_id rt st) \<noteq> st \<longrightarrow>
      (\<exists>s i r. song_id = Some s \<and> ObjectId s = Some i \<and> rt = Some r \<and>
         r \<in> set allowed_ratings))"
  by (auto simp: songs_rating_def error_response_def ObjectNotFoundError_def str_of_opt_def
      split: option.splits prod.splits if_splits)

text \<open>
  Witness for C10: a malformed identifier leaves the example collection as it was, and a
  request that changes it has a well-formed identifier and an allowed rating.
\<close>

theorem songs_rating_error_leaves_store_witness:
  \<open>fst (songs_rating (Some ''hdhhd'') (Some ''4'') fixture_store) =
     Response 500 (Message ''"hdhhd" is not a valid argument for parameter "song_id"'') \<and>
   snd (songs_rating (Some ''hdhhd'') (Some ''4'') fixture_store) = fixture_store \<and>
   snd (songs_rating (Some fixture_id) (Some ''4'') fixture_store) \<noteq> fixture_store \<and>
   ObjectId fixture_id \<noteq> None \<and> ''4'' \<in> set allowed_ratings\<close>
proof -
  have 1: \<open>fst (songs_rating (Some ''hdhhd'') (Some ''4'') fixture_store) =
     Response 500 (Message ''"hdhhd" is not a valid argument for parameter "song_id"'')\<close>
    by code_simp
  have 2: "snd (songs_rating (Some fixture_id) (Some ''4'') fixture_store) \<noteq> fixture_store"
    by code_simp
  show ?thesis
    using songs_rating_error_leaves_store [of "Some ''hdhhd''" "Some ''4''" fixture_store]
      songs_rating_error_leaves_store [of "Some fixture_id" "Some ''4''" fixture_store]
      1 2
    by auto
qed

section \<open>GET /songs/avg/difficulty\<close>

lemma level_order_snoc:
  "level_order (ds @ [d]) =
     (if level d \<in> level ` set ds then level_order ds else level_order ds @ [level d])"
  by (simp add: level_order_def)

lemma set_level_order: "set (level_order ds) = level ` set ds"
  by (simp add: level_order_def)

lemma distinct_level_order: "distinct (level_order ds)"
  by (simp add: level_order_def)

lemma length_level_order: "length (level_order ds) = card (level ` set ds)"
proof -
  have "length (level_order ds) = card (set (rev (map level ds)))"
    by (simp only: level_order_def length_rev length_remdups_card_conv)
  then show ?thesis by simp
qed

lemma group_add_map:
  "distinct ls \<Longrightarrow>
   group_add d (map (\<lambda>l. (l, g l, h l)) ls) =
     (if level d \<in> set ls
      then map (\<lambda>l. (l, if l = level d then g l + difficulty d else g l,
                        if l = level d then h l + 1 else h l)) ls
      else map (\<lambda>l. (l, g l, h l)) ls @ [(level d, difficulty d, 1)])"
  by (induction ls) auto

lemma fold_group_add:
  "fold group_add ds [] =
     map (\<lambda>l. (l, sum_list (map difficulty (filter (\<lambda>d. level d = l) ds)),
                  length (filter (\<lambda>d. level d = l) ds)))
         (level_order ds)"
proof (induction ds rule: rev_induct)
  case Nil
  then show ?case by (simp add: level_order_def)
next
  case (snoc d ds)
  have none: "filter (\<lambda>x. level x = level d) ds = []" if "level d \<notin> level ` set ds"
  proof -
    have "\<forall>x\<in>set ds. level x \<noteq> level d" using that by (metis image_eqI)
    then show ?thesis by (simp add: filter_empty_conv)
  qed
  have "fold group_add (ds @ [d]) [] = group_add d (fold group_add ds [])"
    by simp
  also have "\<dots> = group_add d
      (map (\<lambda>l. (l, sum_list (map difficulty (filter (\<lambda>d. level d = l) ds)),
                  length (filter (\<lambda>d. level d = l) ds))) (level_order ds))"
    by (simp only: snoc.IH)
  also have "\<dots> =
     map (\<lambda>l. (l, sum_list (map difficulty (filter (\<lambda>d. level d = l) (ds @ [d]))),
                  length (filter (\<lambda>d. level d = l) (ds @ [d]))))
         (level_order (ds @ [d]))"
    using none
    by (auto simp: group_add_map distinct_level_order set_level_order level_order_snoc)
  finally show ?case .
qed

lemma group_stage_rows:
  "group_stage ds = map (\<lambda>l. (l, mean_difficulty l ds)) (level_order ds)"
  by (simp add: group_stage_def fold_group_add mean_difficulty_def)

lemma filter_distinct_eq:
  "distinct xs \<Longrightarrow> filter (\<lambda>x. x = l) xs = (if l \<in> set xs then [l] else [])"
  by (induction xs) auto

lemma group_stage_match:
  "filter (\<lambda>r. fst r = l) (group_stage ds) =
     (if l \<in> level ` set ds then [(l, mean_difficulty l ds)] else [])"
proof -
  have "filter (\<lambda>r. fst r = l) (group_stage ds) =
          map (\<lambda>l. (l, mean_difficulty l ds)) (filter (\<lambda>x. x = l) (level_order ds))"
    by (simp add: group_stage_rows filter_map comp_def)
  then show ?thesis
    by (simp add: filter_distinct_eq distinct_level_order set_level_order)
qed

text \<open>
  What the handler computes. Without a \<^verbatim>\<open>level\<close> the response is 200 with one row for
  each level that occurs in the collection, as many rows as there are distinct levels, each
  with the arithmetic mean of the difficulties of the documents of that level. With a
  \<^verbatim>\<open>level\<close> that reads as an integer \<open>l\<close> within the 8 bytes of the store's integers,
  the response is 200 with the one row of \<open>l\<close> when some document has that level, and with
  no row otherwise.
\<close>

lemma get_avg_difficulty_groups:
  "fst (get_avg_difficulty None st) = Response 200 (Group_list (group_stage (docs st))) \<and>
   length (group_stage (docs st)) = card (level ` set (docs st)) \<and>
   set (group_stage (docs st)) =
     (\<lambda>l. (l, mean_difficulty l (docs st))) ` level ` set (docs st) \<and>
   (py_int s = Some l \<and> in_int64 l \<longrightarrow>
      fst (get_avg_difficulty (Some s) st) =
        Response 200 (Group_list
          (if l \<in> level ` set (docs st) then [(l, mean_difficulty l (docs st))] else [])))"
proof (intro conjI impI)
  show "fst (get_avg_difficulty None st) = Response 200 (Group_list (group_stage (docs st)))"
    by (simp add: get_avg_difficulty_def coll_aggregate_def)
  show "length (group_stage (docs st)) = card (level ` set (docs st))"
    by (simp add: group_stage_rows length_level_order)
  show "set (group_stage (docs st)) =
     (\<lambda>l. (l, mean_difficulty l (docs st))) ` level ` set (docs st)"
    by (simp add: group_stage_rows set_level_order)
next
  assume a: "py_int s = Some l \<and> in_int64 l"
  then have "s \<noteq> []" using py_int_nonempty by blast
  with a have "fst (get_avg_difficulty (Some s) st) =
      Response 200 (Group_list (filter (\<lambda>r. fst r = l) (group_stage (docs st))))"
    by (simp add: get_avg_difficulty_def coll_aggregate_def)
  then show "fst (get_avg_difficulty (Some s) st) =
        Response 200 (Group_list
          (if l \<in> level ` set (docs st) then [(l, mean_difficulty l (docs st))] else []))"
    by (simp only: group_stage_match)
qed

text \<open>
  An example: on three songs, one of level 9 with difficulty 10 and two of level 13 with
  difficulties 15 and 16, there are two rows, 10 for level 9 and 31/2 for level 13; the
  level 13 gives its row alone and the level 11 gives none.
\<close>

lemma get_avg_difficulty_examples:
  "fst (get_avg_difficulty None level_store) =
     Response 200 (Group_list [(9, 10), (13, 31 / 2)]) \<and>
   fst (get_avg_difficulty (Some ''13'') level_store) =
     Response 200 (Group_list [(13, 31 / 2)]) \<and>
   fst (get_avg_difficulty (Some ''11'') level_store) = Response 200 (Group_list [])"
proof -
  have 1: "py_int ''13'' = Some 13" by code_simp
  have 2: "py_int ''11'' = Some 11" by code_simp
  have 3: "in_int64 13" "in_int64 11" by (simp_all add: in_int64_def)
  have 4: "level ` set (docs level_store) = {9, 13}"
    by (auto simp: level_store_def fixture_song_def)
  have 5: "mean_difficulty 13 (docs level_store) = 31 / 2"
    by (simp add: mean_difficulty_def level_store_def fixture_song_def)
  have 6: "group_stage (docs level_store) = [(9, 10), (13, 31 / 2)]"
    by (simp add: group_stage_def level_store_def fixture_song_def)
  show ?thesis
    using get_avg_difficulty_groups [of level_store "''13''" 13]
      get_avg_difficulty_groups [of level_store "''11''" 11] 1 2 3 4 5 6
    by simp
qed

text \<open>
  C6. The claim asks, for every level that is a valid integer and that no document has,
  for status 200 with an empty result. The handler reads the level with \<^verbatim>\<open>int\<close>, which
  has no bound, catches \<^verbatim>\<open>ValueError\<close> only, and hands the integer to
  \<^verbatim>\<open>collection.aggregate\<close>: for the level \<open>2^63\<close>, which no document has, the client
  raises \<^verbatim>\<open>OverflowError\<close>, nothing handles it, and no response is built.
\<close>

theorem get_avg_difficulty_level_overflow:
  "py_int ''9223372036854775808'' = Some 9223372036854775808 \<and>
   level ` set (docs fixture_store) = {13} \<and>
   get_avg_difficulty (Some ''9223372036854775808'') fixture_store =
     (Unhandled OverflowError,
      called (Aggregate [Group_level_avg_difficulty, Match_id 9223372036854775808])
        fixture_store)"
proof -
  have 1: "py_int ''9223372036854775808'' = Some 9223372036854775808" by code_simp
  have 2: "\<not> in_int64 9223372036854775808" by (simp add: in_int64_def)
  have 3: "level ` set (docs fixture_store) = {13}"
    by (simp add: fixture_store_def fixture_song_def)
  have 4: "get_avg_difficulty (Some ''9223372036854775808'') fixture_store =
     (Unhandled OverflowError,
      called (Aggregate [Group_level_avg_difficulty, Match_id 9223372036854775808])
        fixture_store)"
    using 1 2 by (simp add: get_avg_difficulty_def coll_aggregate_def)
  from 1 3 4 show ?thesis by blast
qed

end
